theory Spec2Isabelle
  imports Main
begin

section \<open>Python strings\<close>

text \<open>
  A Python \<^verbatim>\<open>str\<close> is a sequence of Unicode code points and \<^verbatim>\<open>len\<close> counts code
  points, so a string is modelled as the list of its code points. ASCII text is written
  through \<open>ustr\<close>; the Japanese literals of the program are given by their code points.
\<close>

type_synonym ustring = "nat list"

definition ustr :: "string \<Rightarrow> ustring" where
  "ustr s = map of_char s"

text \<open>The line feed, \<^verbatim>\<open>"\n"\<close>.\<close>

definition NL :: ustring where
  "NL = [10]"

text \<open>
  \<^verbatim>\<open>str.isspace\<close> on one code point: the characters that \<^verbatim>\<open>str.strip()\<close> removes
  (U+0009..U+000D, U+001C..U+001F, U+0020, U+0085, U+00A0, U+1680, U+2000..U+200A,
  U+2028, U+2029, U+202F, U+205F, U+3000).
\<close>

definition is_space :: "nat \<Rightarrow> bool" where
  "is_space c \<longleftrightarrow>
     (9 \<le> c \<and> c \<le> 13) \<or> (28 \<le> c \<and> c \<le> 32) \<or> c = 133 \<or> c = 160 \<or> c = 5760 \<or>
     (8192 \<le> c \<and> c \<le> 8202) \<or> c = 8232 \<or> c = 8233 \<or> c = 8239 \<or> c = 8287 \<or> c = 12288"

text \<open>
  The line boundaries of \<^verbatim>\<open>str.splitlines()\<close>: LF, VT, FF, CR, FS, GS, RS, NEL, U+2028 and
  U+2029; CR LF counts as one boundary.
\<close>

definition is_linebreak :: "nat \<Rightarrow> bool" where
  "is_linebreak c \<longleftrightarrow>
     (10 \<le> c \<and> c \<le> 13) \<or> (28 \<le> c \<and> c \<le> 30) \<or> c = 133 \<or> c = 8232 \<or> c = 8233"

text \<open>\<^verbatim>\<open>s.strip()\<close>: whitespace is removed at both ends.\<close>

definition strip :: "ustring \<Rightarrow> ustring" where
  "strip s = rev (dropWhile is_space (rev (dropWhile is_space s)))"

text \<open>
  \<^verbatim>\<open>s.splitlines()\<close>: the text is cut at every line boundary, the boundaries are dropped,
  and a boundary at the very end opens no further line (\<^verbatim>\<open>"a\n".splitlines() == ["a"]\<close>,
  \<^verbatim>\<open>"".splitlines() == []\<close>, \<^verbatim>\<open>"\n".splitlines() == [""]\<close>).
\<close>

fun splitlines :: "ustring \<Rightarrow> ustring list" where
  "splitlines [] = []"
| "splitlines (c # cs) =
     (if is_linebreak c then
        (case cs of
           [] \<Rightarrow> [[]]
         | d # ds \<Rightarrow> if c = 13 \<and> d = 10 then [] # splitlines ds else [] # splitlines cs)
      else
        (case splitlines cs of
           [] \<Rightarrow> [[c]]
         | l # ls \<Rightarrow> (c # l) # ls))"

text \<open>\<^verbatim>\<open>sep.join(xs)\<close>.\<close>

fun join :: "ustring \<Rightarrow> ustring list \<Rightarrow> ustring" where
  "join sep [] = []"
| "join sep [x] = x"
| "join sep (x # y # ys) = x @ sep @ join sep (y # ys)"

text \<open>\<^verbatim>\<open>s.startswith(p)\<close> for one prefix, and for a tuple of prefixes.\<close>

definition startswith :: "ustring \<Rightarrow> ustring \<Rightarrow> bool" where
  "startswith s p \<longleftrightarrow> take (length p) s = p"

definition startswith_any :: "ustring \<Rightarrow> ustring list \<Rightarrow> bool" where
  "startswith_any s ps \<longleftrightarrow> list_ex (startswith s) ps"

text \<open>
  \<^verbatim>\<open>s.replace(old, new, 1)\<close>: the leftmost occurrence of \<open>old\<close> is replaced, and the string
  is returned as it is when there is none.
\<close>

fun replace_first :: "ustring \<Rightarrow> ustring \<Rightarrow> ustring \<Rightarrow> ustring" where
  "replace_first old new [] = (if old = [] then new else [])"
| "replace_first old new (c # cs) =
     (if startswith (c # cs) old then new @ drop (length old) (c # cs)
      else c # replace_first old new cs)"

section \<open>The output parser\<close>

text \<open>
  The markers of \<^verbatim>\<open>parse_output\<close>: the subject marker is the two characters U+4EF6 U+540D
  followed by a full-width colon (U+FF1A) or an ASCII colon, the body marker is U+672C
  U+6587 followed by either colon. The placeholder subject is the six characters
  U+FF08 U+81EA U+52D5 U+751F U+6210 U+FF09 (\<open>auto-generated\<close> in full-width parentheses).
\<close>

definition subject_prefixes :: "ustring list" where
  "subject_prefixes = [[20214, 21517, 65306], [20214, 21517, 58]]"

definition body_prefixes :: "ustring list" where
  "body_prefixes = [[26412, 25991, 65306], [26412, 25991, 58]]"

definition placeholder :: ustring where
  "placeholder = [65288, 33258, 21205, 29983, 25104, 65289]"

text \<open>
  The inner loop of \<^verbatim>\<open>parse_output\<close> over the subject prefixes: the first prefix the line
  starts with is cut off (\<^verbatim>\<open>line.replace(prefix, "", 1).strip()\<close>) and the loop is left;
  without a match the subject stays as it was.
\<close>

fun subject_of_line :: "ustring list \<Rightarrow> ustring \<Rightarrow> ustring \<Rightarrow> ustring" where
  "subject_of_line [] line subject = subject"
| "subject_of_line (prefix # rest) line subject =
     (if startswith line prefix then strip (replace_first prefix [] line)
      else subject_of_line rest line subject)"

text \<open>
  The outer loop, \<^verbatim>\<open>for idx, line in enumerate(lines)\<close>, with the variables \<open>subject\<close> and
  \<open>body\<close> as accumulators. A subject line sets \<open>subject\<close> and the scan goes on; a body line
  sets \<open>body\<close> from \<^verbatim>\<open>lines[idx + 1 :]\<close> and ends the scan.
\<close>

fun parse_loop ::
  "ustring list \<Rightarrow> (nat \<times> ustring) list \<Rightarrow> ustring \<Rightarrow> ustring \<Rightarrow> ustring \<times> ustring" where
  "parse_loop lines [] subject body = (subject, body)"
| "parse_loop lines ((idx, line) # rest) subject body =
     (if startswith_any line subject_prefixes then
        parse_loop lines rest (subject_of_line subject_prefixes line subject) body
      else if startswith_any line body_prefixes then
        (subject, strip (join NL (drop (idx + 1) lines)))
      else parse_loop lines rest subject body)"

text \<open>The trimmed lines of a text, \<^verbatim>\<open>[line.strip() for line in text.splitlines()]\<close>.\<close>

definition stripped_lines :: "ustring \<Rightarrow> ustring list" where
  "stripped_lines text = map strip (splitlines text)"

text \<open>The values of \<open>subject\<close> and \<open>body\<close> when the loop of \<^verbatim>\<open>parse_output\<close> is over.\<close>

definition candidates :: "ustring \<Rightarrow> ustring \<times> ustring" where
  "candidates text =
     (let lines = stripped_lines text in parse_loop lines (enumerate 0 lines) [] [])"

definition parse_output :: "ustring \<Rightarrow> ustring \<times> ustring" where
  "parse_output text =
     (let (subject, body) = candidates text in
      if subject = [] then (placeholder, strip text)
      else if body = [] then (subject, strip text)
      else (subject, body))"

section \<open>The validator and the bullet normaliser\<close>

text \<open>
  What the user sees: \<^verbatim>\<open>st.warning\<close> and \<^verbatim>\<open>st.error\<close> append a message to the page.
\<close>

datatype message = Warning ustring | Error ustring

text \<open>
  The three warnings of \<^verbatim>\<open>validate_inputs\<close>: "enter the required information", "the
  required information is too short, enter 10 characters or more" and "the required
  information is too long, keep it within 4000 characters".
\<close>

definition msg_required_empty :: ustring where
  "msg_required_empty =
     [24517, 38920, 24773, 22577, 12434, 20837, 21147, 12375, 12390, 12367, 12384, 12373,
      12356, 12290]"

definition msg_too_short :: ustring where
  "msg_too_short =
     [24517, 38920, 24773, 22577, 12364, 30701, 12377, 12366, 12414, 12377, 12290, 49, 48,
      25991, 23383, 20197, 19978, 20837, 21147, 12375, 12390, 12367, 12384, 12373, 12356,
      12290]"

definition msg_too_long :: ustring where
  "msg_too_long =
     [24517, 38920, 24773, 22577, 12364, 38263, 12377, 12366, 12414, 12377, 12290, 52, 48,
      48, 48, 25991, 23383, 20197, 20869, 12395, 12375, 12390, 12367, 12384, 12373, 12356,
      12290]"

text \<open>
  \<^verbatim>\<open>validate_inputs\<close> returns a flag and warns on the page; the messages it shows are
  returned next to the flag.
\<close>

definition validate_inputs :: "ustring \<Rightarrow> bool \<times> message list" where
  "validate_inputs required_info =
     (if strip required_info = [] then (False, [Warning msg_required_empty])
      else if length required_info < 10 then (False, [Warning msg_too_short])
      else if length required_info > 4000 then (False, [Warning msg_too_long])
      else (True, []))"

text \<open>The bullet marker, \<^verbatim>\<open>"- "\<close>.\<close>

definition bullet :: ustring where
  "bullet = [45, 32]"

text \<open>The loop of \<^verbatim>\<open>normalize_bullets\<close>, with the list \<open>normalized\<close> as accumulator.\<close>

fun bullet_loop :: "ustring list \<Rightarrow> ustring list \<Rightarrow> ustring list" where
  "bullet_loop [] normalized = normalized"
| "bullet_loop (line # rest) normalized =
     (if line = [] then bullet_loop rest normalized
      else if startswith line bullet then bullet_loop rest (normalized @ [line])
      else bullet_loop rest (normalized @ [bullet @ line]))"

definition normalize_bullets :: "ustring \<Rightarrow> ustring" where
  "normalize_bullets text = join NL (bullet_loop (stripped_lines text) [])"

section \<open>The prompt builder\<close>

text \<open>
  The fixed pieces of the two prompt templates, in the order in which the f-strings
  interleave them with the parameters.
\<close>

definition generate_preamble :: ustring where
  "generate_preamble =
     [12354, 12394, 12383, 12399, 12499, 12472, 12493, 12473, 12513, 12540, 12523, 20316,
      25104, 12450, 12471, 12473, 12479, 12531, 12488, 12391, 12377, 12290, 20197, 19979,
      12398, 26465, 20214, 12395, 22522, 12389, 12365, 26085, 26412, 35486, 12398, 12513,
      12540, 12523, 12434, 20316, 25104, 12375, 12390, 12367, 12384, 12373, 12356, 12290,
      24517, 12378, 27425, 12398, 24418, 24335, 12391, 20986, 21147, 12375, 12390, 12367,
      12384, 12373, 12356, 12290, 10, 10, 20214, 21517, 65306, 46, 46, 46, 10, 26412,
      25991, 65306, 10, 46, 46, 46, 10, 10, 23451, 20808, 12398, 38306, 20418, 24615, 58,
      32]"

definition purpose_label :: ustring where
  "purpose_label =
     [10, 30446, 30340, 58, 32]"

definition tone_label :: ustring where
  "tone_label =
     [10, 12488, 12540, 12531, 58, 32]"

definition required_info_label :: ustring where
  "required_info_label =
     [10, 24517, 38920, 24773, 22577, 65288, 31623, 26465, 26360, 12365, 65289, 58, 10]"

definition signature_label :: ustring where
  "signature_label =
     [10, 32626, 21517, 58, 32]"

definition no_signature :: ustring where
  "no_signature =
     [65288, 12394, 12375, 65289]"

definition build_prompt ::
  "ustring \<Rightarrow> ustring \<Rightarrow> ustring \<Rightarrow> ustring \<Rightarrow> ustring \<Rightarrow> ustring" where
  "build_prompt relationship purpose tone required_info signature =
     generate_preamble @ relationship @ purpose_label @ purpose @ tone_label @ tone @
     required_info_label @ required_info @ signature_label @
     (if signature = [] then no_signature else signature) @ NL"

definition rewrite_preamble :: ustring where
  "rewrite_preamble =
     [12354, 12394, 12383, 12399, 12499, 12472, 12493, 12473, 12513, 12540, 12523, 12398,
      32232, 38598, 12450, 12471, 12473, 12479, 12531, 12488, 12391, 12377, 12290, 20197,
      19979, 12398, 12513, 12540, 12523, 26412, 25991, 12434, 25351, 31034, 12395, 24467,
      12387, 12390, 26360, 12365, 25563, 12360, 12390, 12367, 12384, 12373, 12356, 12290,
      20214, 21517, 12399, 22522, 26412, 32173, 25345, 12375, 12289, 26126, 12425, 12363,
      12395, 19981, 33258, 28982, 12394, 12425, 36605, 12367, 25972, 12360, 12427, 31243,
      24230, 12395, 12375, 12390, 12367, 12384, 12373, 12356, 12290, 24517, 12378, 27425,
      12398, 24418, 24335, 12391, 20986, 21147, 12375, 12390, 12367, 12384, 12373, 12356,
      12290, 10, 10, 20214, 21517, 65306, 46, 46, 46, 10, 26412, 25991, 65306, 10, 46, 46,
      46, 10, 10, 25351, 31034, 58, 32]"

definition subject_label :: ustring where
  "subject_label =
     [10, 20214, 21517, 58, 32]"

definition body_label :: ustring where
  "body_label =
     [10, 26412, 25991, 58, 10]"

definition build_rewrite_prompt :: "ustring \<Rightarrow> ustring \<Rightarrow> ustring \<Rightarrow> ustring" where
  "build_rewrite_prompt subject body instruction =
     rewrite_preamble @ instruction @ subject_label @ subject @ body_label @ body @ NL"

section \<open>The field store, the gateway and the two actions\<close>

text \<open>
  The model service is a parameter: a gateway maps the prompt to the reply, or to \<open>None\<close>
  when the call raises. The world of an action holds the credential as \<^verbatim>\<open>os.getenv\<close>
  returns it, the field store \<^verbatim>\<open>st.session_state\<close>, the messages shown on the page, and the
  prompts the gateway was invoked with.
\<close>

type_synonym gateway = "ustring \<Rightarrow> ustring option"

record world =
  api_key :: "ustring option"
  session_state :: "string \<rightharpoonup> ustring"
  shown :: "message list"
  invoked :: "ustring list"

datatype exn = KeyError string

definition RELATIONSHIPS :: "ustring list" where
  "RELATIONSHIPS =
     [[21462, 24341, 20808],
      [31038, 20869, 65288, 19978, 21496, 65289],
      [31038, 20869, 65288, 21516, 20698, 65289],
      [12362, 23458, 27096]]"

definition PURPOSES :: "ustring list" where
  "PURPOSES =
     [[20381, 38972],
      [12362, 31036],
      [35613, 32618],
      [26085, 31243, 35519, 25972],
      [36074, 21839],
      [22577, 21578]]"

definition TONES :: "ustring list" where
  "TONES =
     [[19969, 23527],
      [12405, 12388, 12358],
      [12459, 12472, 12517, 12450, 12523]]"

definition defaults :: "(string \<times> ustring) list" where
  "defaults =
     [(''relationship'', RELATIONSHIPS ! 0), (''purpose'', PURPOSES ! 0), (''tone'', TONES ! 0),
      (''required_info'', []), (''signature'', []), (''subject'', []), (''body'', [])]"

text \<open>\<^verbatim>\<open>init_session_state\<close>: every key that is missing gets its default.\<close>

fun seed :: "(string \<times> ustring) list \<Rightarrow> (string \<rightharpoonup> ustring) \<Rightarrow> (string \<rightharpoonup> ustring)" where
  "seed [] s = s"
| "seed ((key, v) # rest) s = seed rest (if s key = None then s(key \<mapsto> v) else s)"

definition init_session_state :: "world \<Rightarrow> world" where
  "init_session_state w = w\<lparr>session_state := seed defaults (session_state w)\<rparr>"

definition warning :: "ustring \<Rightarrow> world \<Rightarrow> world" where
  "warning msg w = w\<lparr>shown := shown w @ [Warning msg]\<rparr>"

definition error :: "ustring \<Rightarrow> world \<Rightarrow> world" where
  "error msg w = w\<lparr>shown := shown w @ [Error msg]\<rparr>"

text \<open>\<^verbatim>\<open>not os.getenv("OPENAI_API_KEY")\<close>: the variable is unset, or set to the empty string.\<close>

definition key_missing :: "world \<Rightarrow> bool" where
  "key_missing w \<longleftrightarrow> api_key w = None \<or> api_key w = Some []"

text \<open>
  \<^verbatim>\<open>call_llm\<close>: the one place where the gateway is invoked. The reply is \<open>None\<close> when the call
  raises.
\<close>

definition call_llm :: "gateway \<Rightarrow> ustring \<Rightarrow> world \<Rightarrow> ustring option \<times> world" where
  "call_llm gw prompt w = (gw prompt, w\<lparr>invoked := invoked w @ [prompt]\<rparr>)"

text \<open>
  \<^verbatim>\<open>generate_with_llm\<close>. It runs inside the \<^verbatim>\<open>try\<close> of \<^verbatim>\<open>handle_generate\<close>, whose handler
  treats every exception alike, so a missing key of the field store and a failing
  gateway both give \<open>None\<close>.
\<close>

definition generate_with_llm :: "gateway \<Rightarrow> world \<Rightarrow> (ustring \<times> ustring) option \<times> world" where
  "generate_with_llm gw w =
     (case (session_state w ''relationship'', session_state w ''purpose'',
            session_state w ''tone'', session_state w ''required_info'',
            session_state w ''signature'') of
        (Some relationship, Some purpose, Some tone, Some ri, Some sg) \<Rightarrow>
          (let required_info = strip ri;
               signature = strip sg;
               normalized_required_info = normalize_bullets required_info;
               prompt = build_prompt relationship purpose tone normalized_required_info signature;
               (output, w') = call_llm gw prompt w
           in (map_option parse_output output, w'))
      | _ \<Rightarrow> (None, w))"

text \<open>The three warnings and two errors of the actions.\<close>

definition msg_key_missing :: ustring where
  "msg_key_missing =
     [79, 80, 69, 78, 65, 73, 95, 65, 80, 73, 95, 75, 69, 89, 32, 12364, 26410, 35373,
      23450, 12391, 12377, 12290, 46, 101, 110, 118, 32, 12434, 20316, 25104, 12375, 12390,
      12367, 12384, 12373, 12356, 12290]"

definition msg_body_empty :: ustring where
  "msg_body_empty =
     [26412, 25991, 12364, 31354, 12398, 12383, 12417, 20877, 29983, 25104, 12391, 12365,
      12414, 12379, 12435, 12290]"

definition msg_generate_failed :: ustring where
  "msg_generate_failed =
     [29983, 25104, 12395, 22833, 25943, 12375, 12414, 12375, 12383, 12290, 20837, 21147,
      12434, 30701, 12367, 12375, 12390, 20877, 35430, 34892, 12375, 12390, 12367, 12384,
      12373, 12356, 12290]"

definition msg_rewrite_failed :: ustring where
  "msg_rewrite_failed =
     [20877, 29983, 25104, 12395, 22833, 25943, 12375, 12414, 12375, 12383, 12290, 20837,
      21147, 12434, 30701, 12367, 12375, 12390, 20877, 35430, 34892, 12375, 12390, 12367,
      12384, 12373, 12356, 12290]"

text \<open>
  \<^verbatim>\<open>handle_generate\<close>. Reading \<^verbatim>\<open>st.session_state["required_info"]\<close> is outside the
  \<^verbatim>\<open>try\<close>, so a missing key leaves the action with a \<^verbatim>\<open>KeyError\<close>.
\<close>

definition handle_generate :: "gateway \<Rightarrow> world \<Rightarrow> exn + world" where
  "handle_generate gw w =
     (if key_missing w then Inr (warning msg_key_missing w)
      else
        (case session_state w ''required_info'' of
           None \<Rightarrow> Inl (KeyError ''required_info'')
         | Some required_info \<Rightarrow>
             (let (ok, msgs) = validate_inputs required_info;
                  w1 = w\<lparr>shown := shown w @ msgs\<rparr>
              in if \<not> ok then Inr w1
                 else
                   (case generate_with_llm gw w1 of
                      (None, w2) \<Rightarrow> Inr (error msg_generate_failed w2)
                    | (Some (subject, body), w2) \<Rightarrow>
                        Inr (w2\<lparr>session_state :=
                                   (session_state w2)(''subject'' \<mapsto> subject, ''body'' \<mapsto> body)\<rparr>)))))"

text \<open>\<^verbatim>\<open>st.session_state.get(key, "")\<close>.\<close>

definition get_default :: "(string \<rightharpoonup> ustring) \<Rightarrow> string \<Rightarrow> ustring" where
  "get_default s key = (case s key of None \<Rightarrow> [] | Some v \<Rightarrow> v)"

definition handle_rewrite :: "gateway \<Rightarrow> ustring \<Rightarrow> world \<Rightarrow> world" where
  "handle_rewrite gw instruction w =
     (if key_missing w then warning msg_key_missing w
      else
        (let subject = strip (get_default (session_state w) ''subject'');
             body = strip (get_default (session_state w) ''body'')
         in if body = [] then warning msg_body_empty w
            else
              (let prompt = build_rewrite_prompt subject body instruction;
                   (output, w1) = call_llm gw prompt w
               in (case map_option parse_output output of
                     None \<Rightarrow> error msg_rewrite_failed w1
                   | Some (new_subject, new_body) \<Rightarrow>
                       (let w2 = (if new_subject \<noteq> []
                                  then w1\<lparr>session_state :=
                                            (session_state w1)(''subject'' \<mapsto> new_subject)\<rparr>
                                  else w1)
                        in w2\<lparr>session_state := (session_state w2)(''body'' \<mapsto> new_body)\<rparr>)))))"

section \<open>Facts about the string operations\<close>

lemma strip_Nil: "strip [] = []"
  by (simp add: strip_def)

lemma strip_eq_Nil_iff: "strip s = [] \<longleftrightarrow> (\<forall>c\<in>set s. is_space c)"
proof
  assume "strip s = []"
  then have all: "\<forall>c\<in>set (dropWhile is_space s). is_space c"
    by (simp add: strip_def)
  have "dropWhile is_space s = []"
  proof (rule ccontr)
    assume ne: "dropWhile is_space s \<noteq> []"
    then have "\<not> is_space (hd (dropWhile is_space s))" by (rule hd_dropWhile)
    moreover have "hd (dropWhile is_space s) \<in> set (dropWhile is_space s)"
      using ne by (rule hd_in_set)
    ultimately show False using all by blast
  qed
  then show "\<forall>c\<in>set s. is_space c"
    by simp
next
  assume "\<forall>c\<in>set s. is_space c"
  then show "strip s = []"
    by (auto simp: strip_def dest: set_dropWhileD)
qed

lemma length_strip_le: "length (strip s) \<le> length s"
proof -
  have "length (strip s) = length (dropWhile is_space (rev (dropWhile is_space s)))"
    by (simp add: strip_def)
  also have "\<dots> \<le> length (rev (dropWhile is_space s))"
    by (rule length_dropWhile_le)
  also have "\<dots> \<le> length s"
    by (simp add: length_dropWhile_le)
  finally show ?thesis .
qed

lemma set_strip_subset: "c \<in> set (strip s) \<Longrightarrow> c \<in> set s"
proof -
  assume "c \<in> set (strip s)"
  then have "c \<in> set (dropWhile is_space (rev (dropWhile is_space s)))"
    by (simp add: strip_def)
  then have "c \<in> set (rev (dropWhile is_space s))"
    by (rule set_dropWhileD)
  then have "c \<in> set (dropWhile is_space s)"
    by simp
  then show "c \<in> set s"
    by (rule set_dropWhileD)
qed

lemma strip_fixed:
  assumes "s \<noteq> []" "\<not> is_space (hd s)" "\<not> is_space (last s)"
  shows "strip s = s"
proof -
  have "dropWhile is_space s = s"
    using assms by (cases s) simp_all
  moreover have "dropWhile is_space (rev s) = rev s"
    using assms by (cases "rev s") (simp_all add: last_rev hd_rev)
  ultimately show ?thesis
    by (simp add: strip_def)
qed

lemma strip_ends:
  assumes "strip s \<noteq> []"
  shows "\<not> is_space (hd (strip s))" and "\<not> is_space (last (strip s))"
proof -
  let ?d = "dropWhile is_space s"
  let ?e = "dropWhile is_space (rev ?d)"
  have e: "?e \<noteq> []" using assms by (simp add: strip_def)
  have d: "?d \<noteq> []"
  proof
    assume "?d = []"
    then have "?e = []" by (simp only: rev.simps dropWhile.simps)
    with e show False by (rule notE)
  qed
  have "\<not> is_space (hd ?e)" using e by (rule hd_dropWhile)
  then show "\<not> is_space (last (strip s))"
    using e by (simp add: strip_def last_rev)
  have "rev ?d = takeWhile is_space (rev ?d) @ ?e" by simp
  then have "rev (rev ?d) = rev (takeWhile is_space (rev ?d) @ ?e)" by (rule arg_cong)
  then have "?d = rev ?e @ rev (takeWhile is_space (rev ?d))"
    by (simp only: rev_rev_ident rev_append)
  then have "hd ?d = hd (rev ?e @ rev (takeWhile is_space (rev ?d)))" by (rule arg_cong)
  then have "hd ?d = hd (rev ?e)"
    using e by (simp only: hd_append2 rev_is_Nil_conv not_False_eq_True)
  moreover have "\<not> is_space (hd ?d)" using d by (rule hd_dropWhile)
  ultimately show "\<not> is_space (hd (strip s))"
    by (simp add: strip_def)
qed

lemma strip_idem: "strip (strip s) = strip s"
proof (cases "strip s = []")
  case True
  then show ?thesis by (simp add: strip_Nil)
next
  case False
  then show ?thesis by (intro strip_fixed strip_ends)
qed

lemma linebreak_is_space: "is_linebreak c \<Longrightarrow> is_space c"
  by (auto simp: is_linebreak_def is_space_def)


lemma splitlines_no_break_all:
  "\<forall>l\<in>set (splitlines s). \<forall>c\<in>set l. \<not> is_linebreak c"
proof (induction s rule: splitlines.induct)
  case 1
  show ?case by simp
next
  case (2 a cs)
  show ?case
  proof (cases "is_linebreak a")
    case lb: True
    show ?thesis
    proof (cases cs)
      case Nil
      with lb show ?thesis by simp
    next
      case (Cons d ds)
      show ?thesis
      proof (cases "a = 13 \<and> d = 10")
        case True
        have ih: "\<forall>l\<in>set (splitlines ds). \<forall>c\<in>set l. \<not> is_linebreak c"
          using lb Cons True by (rule "2.IH"(1))
        have "splitlines (a # cs) = [] # splitlines ds"
          using lb Cons True by simp
        with ih show ?thesis by auto
      next
        case False
        have ih: "\<forall>l\<in>set (splitlines cs). \<forall>c\<in>set l. \<not> is_linebreak c"
          using lb Cons False by (rule "2.IH"(2))
        have "splitlines (a # cs) = [] # splitlines cs"
          using lb Cons False by (auto simp del: splitlines.simps simp add: splitlines.simps(2)[of a "d # ds"])
        with ih show ?thesis by auto
      qed
    qed
  next
    case nb: False
    then have ih: "\<forall>l\<in>set (splitlines cs). \<forall>c\<in>set l. \<not> is_linebreak c"
      by (rule "2.IH"(3))
    show ?thesis
    proof (cases "splitlines cs")
      case Nil
      with nb show ?thesis by simp
    next
      case (Cons l ls)
      then have "splitlines (a # cs) = (a # l) # ls"
        using nb by simp
      with ih nb Cons show ?thesis by auto
    qed
  qed
qed

lemma splitlines_no_break:
  "l \<in> set (splitlines s) \<Longrightarrow> c \<in> set l \<Longrightarrow> \<not> is_linebreak c"
  using splitlines_no_break_all by blast

lemma splitlines_LF: "splitlines (10 # r) = [] # splitlines r"
  by (cases r) (simp_all add: is_linebreak_def)

lemma splitlines_line_LF:
  "\<forall>c\<in>set l. \<not> is_linebreak c \<Longrightarrow> splitlines (l @ 10 # r) = l # splitlines r"
proof (induction l)
  case Nil
  then show ?case by (simp add: splitlines_LF del: splitlines.simps)
next
  case (Cons a l)
  then show ?case by simp
qed

lemma splitlines_line:
  "\<forall>c\<in>set l. \<not> is_linebreak c \<Longrightarrow> l \<noteq> [] \<Longrightarrow> splitlines l = [l]"
proof (induction l)
  case Nil
  then show ?case by simp
next
  case (Cons a l)
  then show ?case by (cases l) simp_all
qed

lemma splitlines_join:
  "\<forall>l\<in>set ls. l \<noteq> [] \<and> (\<forall>c\<in>set l. \<not> is_linebreak c) \<Longrightarrow> splitlines (join NL ls) = ls"
proof (induction NL ls rule: join.induct)
  case 1
  then show ?case by simp
next
  case (2 x)
  then show ?case by (simp add: splitlines_line)
next
  case (3 x y ys)
  then show ?case by (simp add: NL_def splitlines_line_LF del: splitlines.simps)
qed

section \<open>The bullet normaliser\<close>

lemma bullet_loop_map:
  "bullet_loop ls acc =
     acc @ map (\<lambda>l. if startswith l bullet then l else bullet @ l) (filter (\<lambda>l. l \<noteq> []) ls)"
  by (induction ls arbitrary: acc) simp_all

lemma startswith_append: "startswith (p @ l) p"
  by (simp add: startswith_def)

lemma startswith_Nil: "startswith [] p \<longleftrightarrow> p = []"
  by (auto simp: startswith_def)

lemma stripped_line_props:
  assumes "l \<in> set (stripped_lines x)"
  shows "\<forall>c\<in>set l. \<not> is_linebreak c" and "strip l = l"
proof -
  from assms obtain r where r: "r \<in> set (splitlines x)" and l: "l = strip r"
    by (auto simp: stripped_lines_def)
  show "\<forall>c\<in>set l. \<not> is_linebreak c"
    using r l splitlines_no_break set_strip_subset by blast
  show "strip l = l"
    using l by (simp add: strip_idem)
qed

lemma bullet_line_props:
  assumes "b \<in> set (bullet_loop (stripped_lines x) [])"
  shows "b \<noteq> []" and "startswith b bullet" and "\<forall>c\<in>set b. \<not> is_linebreak c"
    and "strip b = b"
proof -
  from assms obtain l where l: "l \<in> set (stripped_lines x)" "l \<noteq> []"
    and b: "b = (if startswith l bullet then l else bullet @ l)"
    by (auto simp: bullet_loop_map)
  have nb: "\<forall>c\<in>set l. \<not> is_linebreak c" and sl: "strip l = l"
    using l(1) by (rule stripped_line_props)+
  show "b \<noteq> []" using l(2) b by simp
  show "startswith b bullet" using b by (simp add: startswith_append)
  show "\<forall>c\<in>set b. \<not> is_linebreak c"
    using nb b by (auto simp: bullet_def is_linebreak_def)
  have ends: "\<not> is_space (hd l)" "\<not> is_space (last l)"
    using strip_ends [of l] l(2) sl by simp_all
  show "strip b = b"
  proof (cases "startswith l bullet")
    case True
    with b sl show ?thesis by simp
  next
    case False
    with b have "b = bullet @ l" by simp
    moreover have "strip (bullet @ l) = bullet @ l"
      using l(2) ends by (intro strip_fixed) (simp_all add: bullet_def is_space_def)
    ultimately show ?thesis by simp
  qed
qed

lemma bullet_loop_fixed:
  "\<forall>b\<in>set bs. b \<noteq> [] \<and> startswith b bullet \<Longrightarrow> bullet_loop bs [] = bs"
  by (simp add: bullet_loop_map filter_id_conv map_idI)

lemma lines_of_normalized:
  "splitlines (normalize_bullets x) = bullet_loop (stripped_lines x) []"
  unfolding normalize_bullets_def
  by (rule splitlines_join) (simp add: bullet_line_props)

text \<open>
  Claim C7. \<^verbatim>\<open>normalize_bullets\<close> is idempotent, and its output has no empty line: every
  line of the output, as \<^verbatim>\<open>splitlines\<close> cuts it, is non-empty and starts with the bullet
  marker \<^verbatim>\<open>"- "\<close>.
\<close>

theorem normalize_bullets_idempotent_bulleted:
  "normalize_bullets (normalize_bullets x) = normalize_bullets x \<and>
   (\<forall>l\<in>set (splitlines (normalize_bullets x)). l \<noteq> [] \<and> startswith l bullet)"
proof
  let ?B = "bullet_loop (stripped_lines x) []"
  have "stripped_lines (normalize_bullets x) = map strip ?B"
    by (simp add: stripped_lines_def lines_of_normalized)
  also have "\<dots> = ?B"
    by (rule map_idI) (rule bullet_line_props)
  finally have "stripped_lines (normalize_bullets x) = ?B" .
  moreover have "bullet_loop ?B [] = ?B"
    by (rule bullet_loop_fixed) (simp add: bullet_line_props)
  ultimately show "normalize_bullets (normalize_bullets x) = normalize_bullets x"
    by (simp add: normalize_bullets_def)
  show "\<forall>l\<in>set (splitlines (normalize_bullets x)). l \<noteq> [] \<and> startswith l bullet"
    by (simp add: lines_of_normalized bullet_line_props)
qed

text \<open>The definitions that evaluate the string operations on a concrete text.\<close>

lemmas eval_defs = ustr_def NL_def is_space_def is_linebreak_def strip_def stripped_lines_def
  startswith_def startswith_any_def bullet_def normalize_bullets_def

theorem normalize_bullets_witness:
  "normalize_bullets (ustr ''  first point  '' @ [13, 10, 10] @ ustr ''- second'' @ NL) =
     ustr ''- first point'' @ NL @ ustr ''- second'' \<and>
   normalize_bullets (ustr ''- first point'' @ NL @ ustr ''- second'') =
     ustr ''- first point'' @ NL @ ustr ''- second'' \<and>
   splitlines (ustr ''- first point'' @ NL @ ustr ''- second'') =
     [ustr ''- first point'', ustr ''- second'']"
  using normalize_bullets_idempotent_bulleted
    [of "ustr ''  first point  '' @ [13, 10, 10] @ ustr ''- second'' @ NL"]
  by (simp add: eval_defs)

section \<open>The loop of the output parser\<close>

lemma replace_first_prefix:
  "startswith l p \<Longrightarrow> p \<noteq> [] \<Longrightarrow> replace_first p [] l = drop (length p) l"
  by (cases l) (auto simp: startswith_def)

lemma subject_of_line_eq:
  assumes "startswith_any l subject_prefixes"
  shows "subject_of_line subject_prefixes l s = strip (drop 3 l)"
  using assms
  by (auto simp: subject_prefixes_def startswith_any_def replace_first_prefix numeral_3_eq_3)

lemma subject_not_body:
  "startswith_any l subject_prefixes \<Longrightarrow> \<not> startswith_any l body_prefixes"
  by (auto simp: subject_prefixes_def body_prefixes_def startswith_any_def startswith_def)

lemma fst_parse_loop:
  "fst (parse_loop lines (enumerate k ls) s b) =
     (let subs = filter (\<lambda>l. startswith_any l subject_prefixes)
                   (takeWhile (\<lambda>l. \<not> startswith_any l body_prefixes) ls)
      in if subs = [] then s else strip (drop 3 (last subs)))"
proof (induction ls arbitrary: k s)
  case Nil
  show ?case by simp
next
  case (Cons l ls)
  show ?case
  proof (cases "startswith_any l subject_prefixes")
    case True
    then show ?thesis
      using subject_not_body [OF True] Cons [of "Suc k" "strip (drop 3 l)"]
      by (simp add: subject_of_line_eq Let_def)
  next
    case False
    then show ?thesis
      using Cons [of "Suc k" s] by (simp add: Let_def)
  qed
qed

lemma snd_parse_loop:
  "drop k lines = ls \<Longrightarrow>
   snd (parse_loop lines (enumerate k ls) s b) =
     (let i = length (takeWhile (\<lambda>l. \<not> startswith_any l body_prefixes) ls)
      in if i < length ls then strip (join NL (drop (Suc i) ls)) else b)"
proof (induction ls arbitrary: k s)
  case Nil
  show ?case by simp
next
  case (Cons l ls)
  have tl: "drop (Suc k) lines = ls"
    using Cons.prems by (metis drop_Suc list.sel(3) tl_drop)
  show ?case
  proof (cases "startswith_any l subject_prefixes")
    case True
    then show ?thesis
      using subject_not_body [OF True] Cons.IH [OF tl, of "subject_of_line subject_prefixes l s"]
      by (simp add: Let_def)
  next
    case False
    then show ?thesis
      using Cons.IH [OF tl, of s] tl by (simp add: Let_def)
  qed
qed

lemma fst_candidates:
  "fst (candidates text) =
     (let subs = filter (\<lambda>l. startswith_any l subject_prefixes)
                   (takeWhile (\<lambda>l. \<not> startswith_any l body_prefixes) (stripped_lines text))
      in if subs = [] then [] else strip (drop 3 (last subs)))"
  by (simp add: candidates_def Let_def fst_parse_loop [unfolded Let_def])

lemma snd_candidates:
  "snd (candidates text) =
     (let ls = stripped_lines text;
          i = length (takeWhile (\<lambda>l. \<not> startswith_any l body_prefixes) ls)
      in if i < length ls then strip (join NL (drop (Suc i) ls)) else [])"
  using snd_parse_loop [of 0 "stripped_lines text" "stripped_lines text" "[]" "[]"]
  by (simp add: candidates_def Let_def)

lemma fst_parse_output:
  "fst (parse_output text) = (if fst (candidates text) = [] then placeholder else fst (candidates text))"
  by (simp add: parse_output_def split: prod.splits)

lemma snd_parse_output:
  "snd (parse_output text) =
     (if fst (candidates text) = [] \<or> snd (candidates text) = [] then strip text
      else snd (candidates text))"
  by (simp add: parse_output_def split: prod.splits)

text \<open>The definitions that evaluate \<^verbatim>\<open>parse_output\<close> on a concrete reply.\<close>

lemmas parse_defs = parse_output_def candidates_def subject_prefixes_def body_prefixes_def
  placeholder_def

section \<open>Claims about the output parser\<close>

text \<open>
  Claim C3, as amended. The subject returned by \<^verbatim>\<open>parse_output\<close> comes from the LAST
  subject-marker line among the trimmed lines that precede the first body-marker line:
  it is the text after the three characters of the marker, trimmed. When there is no
  such line, or that text is empty, the placeholder is returned. Lines from the first
  body-marker line on are not scanned.
\<close>

theorem parse_output_subject_from_last_marker:
  "fst (parse_output text) =
     (let subs = filter (\<lambda>l. startswith_any l subject_prefixes)
                   (takeWhile (\<lambda>l. \<not> startswith_any l body_prefixes) (stripped_lines text))
      in if subs = [] \<or> strip (drop 3 (last subs)) = [] then placeholder
         else strip (drop 3 (last subs)))"
  by (simp add: fst_parse_output fst_candidates Let_def)

text \<open>
  Two subject lines: the second one wins. A body marker before the subject line: the
  subject line is never reached.
\<close>

theorem parse_output_subject_from_last_marker_witness:
  "fst (parse_output ([20214, 21517, 65306] @ ustr ''A'' @ NL @ [20214, 21517, 65306] @ ustr ''B''))
     = ustr ''B'' \<and>
   fst (parse_output ([26412, 25991, 65306] @ NL @ [20214, 21517, 65306] @ ustr ''A''))
     = placeholder"
  using parse_output_subject_from_last_marker
      [of "[20214, 21517, 65306] @ ustr ''A'' @ NL @ [20214, 21517, 65306] @ ustr ''B''"]
    parse_output_subject_from_last_marker
      [of "[26412, 25991, 65306] @ NL @ [20214, 21517, 65306] @ ustr ''A''"]
  by (simp add: eval_defs subject_prefixes_def body_prefixes_def)

text \<open>
  Claim C3 as stated fails: in a reply with the two lines "subject marker, A" and
  "subject marker, B" the first line that starts with a subject marker carries A, and the
  subject returned is B.
\<close>

theorem parse_output_first_subject_line_counterexample:
  "find (\<lambda>l. startswith_any l subject_prefixes)
     (stripped_lines ([20214, 21517, 65306] @ ustr ''A'' @ NL @ [20214, 21517, 65306] @ ustr ''B''))
     = Some ([20214, 21517, 65306] @ ustr ''A'') \<and>
   fst (parse_output ([20214, 21517, 65306] @ ustr ''A'' @ NL @ [20214, 21517, 65306] @ ustr ''B''))
     \<noteq> strip (drop 3 ([20214, 21517, 65306] @ ustr ''A'')) \<and>
   fst (parse_output ([20214, 21517, 65306] @ ustr ''A'' @ NL @ [20214, 21517, 65306] @ ustr ''B''))
     = ustr ''B''"
  by (simp add: eval_defs parse_defs)

text \<open>A text of whitespace only has only empty trimmed lines, hence no subject line.\<close>

lemma splitlines_chars_all:
  "\<forall>l\<in>set (splitlines s). set l \<subseteq> set s"
proof (induction s rule: splitlines.induct)
  case 1
  show ?case by simp
next
  case (2 a cs)
  show ?case
  proof (cases "is_linebreak a")
    case lb: True
    show ?thesis
    proof (cases cs)
      case Nil
      with lb show ?thesis by simp
    next
      case (Cons d ds)
      show ?thesis
      proof (cases "a = 13 \<and> d = 10")
        case True
        have ih: "\<forall>l\<in>set (splitlines ds). set l \<subseteq> set ds"
          using lb Cons True by (rule "2.IH"(1))
        have "splitlines (a # cs) = [] # splitlines ds"
          using lb Cons True by simp
        with ih Cons show ?thesis by auto
      next
        case False
        have ih: "\<forall>l\<in>set (splitlines cs). set l \<subseteq> set cs"
          using lb Cons False by (rule "2.IH"(2))
        have "splitlines (a # cs) = [] # splitlines cs"
          using lb Cons False
          by (auto simp del: splitlines.simps simp add: splitlines.simps(2)[of a "d # ds"])
        with ih show ?thesis by auto
      qed
    qed
  next
    case nb: False
    then have ih: "\<forall>l\<in>set (splitlines cs). set l \<subseteq> set cs"
      by (rule "2.IH"(3))
    show ?thesis
    proof (cases "splitlines cs")
      case Nil
      with nb show ?thesis by simp
    next
      case (Cons l ls)
      then have "splitlines (a # cs) = (a # l) # ls"
        using nb by simp
      with ih nb Cons show ?thesis by auto
    qed
  qed
qed

lemma blank_text_lines:
  assumes "strip text = []"
  shows "\<forall>l\<in>set (stripped_lines text). l = []"
proof
  fix l
  assume "l \<in> set (stripped_lines text)"
  then obtain r where r: "r \<in> set (splitlines text)" and l: "l = strip r"
    by (auto simp: stripped_lines_def)
  have "\<forall>c\<in>set r. is_space c"
    using assms r splitlines_chars_all [of "text"] by (auto simp: strip_eq_Nil_iff)
  then show "l = []"
    using l by (simp add: strip_eq_Nil_iff)
qed

lemma blank_text_no_subject:
  assumes "strip text = []"
  shows "fst (candidates text) = []"
proof -
  have "\<forall>l\<in>set (stripped_lines text). \<not> startswith_any l subject_prefixes"
    using blank_text_lines [OF assms]
    by (auto simp: startswith_any_def subject_prefixes_def startswith_Nil)
  then have "filter (\<lambda>l. startswith_any l subject_prefixes)
               (takeWhile (\<lambda>l. \<not> startswith_any l body_prefixes) (stripped_lines text)) = []"
    by (auto simp: filter_empty_conv dest: set_takeWhileD)
  then show ?thesis
    by (simp add: fst_candidates)
qed

text \<open>
  Claim C4, as amended. \<^verbatim>\<open>parse_output\<close> is total: every text gives a pair of a subject and
  a body. The body is non-empty whenever the trimmed text is non-empty, and it is empty
  when the text is empty or consists of whitespace only.
\<close>

theorem parse_output_total_body:
  "(\<exists>subject body. parse_output text = (subject, body)) \<and>
   (strip text \<noteq> [] \<longrightarrow> snd (parse_output text) \<noteq> []) \<and>
   (strip text = [] \<longrightarrow> snd (parse_output text) = [])"
  by (auto simp: snd_parse_output blank_text_no_subject)

text \<open>A text with content and a blank text.\<close>

theorem parse_output_total_body_witness:
  "strip (ustr ''just some text'') \<noteq> [] \<and> snd (parse_output (ustr ''just some text'')) \<noteq> [] \<and>
   strip (ustr ''  '') = [] \<and> snd (parse_output (ustr ''  '')) = []"
  using parse_output_total_body [of "ustr ''just some text''"]
    parse_output_total_body [of "ustr ''  ''"]
  by (simp add: eval_defs)

text \<open>
  Claim C4 as stated fails: the text of one space is not empty, and the body returned for
  it is empty.
\<close>

theorem parse_output_blank_body_counterexample:
  "ustr '' '' \<noteq> [] \<and> snd (parse_output (ustr '' '')) = []"
  by (simp add: eval_defs parse_defs)

text \<open>
  Claim C5, as amended. The subject candidate is the trimmed text after the marker of
  the last subject-marker line that precedes the first body-marker line, and it is empty
  when there is no such line; the body candidate is made of all the lines after the
  first body-marker line, joined with newlines and trimmed, and it is empty when there is
  no body-marker line. When the subject candidate is empty (no subject line was scanned,
  or the one scanned last has no text after its marker), \<^verbatim>\<open>parse_output\<close> returns the
  placeholder and the whole trimmed text, whatever the body candidate is. Otherwise, when
  the body candidate is empty (no body-marker line, or only whitespace after it), it
  returns the subject candidate and the whole trimmed text. Otherwise it returns the two
  candidates. The text \<^verbatim>\<open>"just some text"\<close> gives the placeholder and the text itself.
\<close>

theorem parse_output_resolution_by_marker_lines:
  "parse_output text =
     (let ls = stripped_lines text;
          scanned = takeWhile (\<lambda>l. \<not> startswith_any l body_prefixes) ls;
          subs = filter (\<lambda>l. startswith_any l subject_prefixes) scanned;
          subject = (if subs = [] then [] else strip (drop 3 (last subs)));
          body = (if length scanned < length ls
                  then strip (join NL (drop (Suc (length scanned)) ls)) else [])
      in if subject = [] then (placeholder, strip text)
         else if body = [] then (subject, strip text)
         else (subject, body)) \<and>
   parse_output (ustr ''just some text'') = (placeholder, ustr ''just some text'')"
proof
  have "parse_output text =
      (if fst (candidates text) = [] then (placeholder, strip text)
       else if snd (candidates text) = [] then (fst (candidates text), strip text)
       else (fst (candidates text), snd (candidates text)))"
    by (simp add: parse_output_def split: prod.splits)
  then show "parse_output text =
     (let ls = stripped_lines text;
          scanned = takeWhile (\<lambda>l. \<not> startswith_any l body_prefixes) ls;
          subs = filter (\<lambda>l. startswith_any l subject_prefixes) scanned;
          subject = (if subs = [] then [] else strip (drop 3 (last subs)));
          body = (if length scanned < length ls
                  then strip (join NL (drop (Suc (length scanned)) ls)) else [])
      in if subject = [] then (placeholder, strip text)
         else if body = [] then (subject, strip text)
         else (subject, body))"
    by (simp only: fst_candidates snd_candidates Let_def)
  show "parse_output (ustr ''just some text'') = (placeholder, ustr ''just some text'')"
    by (simp add: eval_defs parse_defs)
qed

text \<open>
  The four cases: no marker at all; a subject line without text, followed by a body; a
  subject with a blank body; a subject and a body.
\<close>

theorem parse_output_resolution_by_marker_lines_witness:
  "parse_output (ustr ''just some text'')
     = (placeholder, ustr ''just some text'') \<and>
   parse_output ([20214, 21517, 65306] @ NL @ [26412, 25991, 65306] @ NL @ ustr ''hello'')
     = (placeholder, [20214, 21517, 65306] @ NL @ [26412, 25991, 65306] @ NL @ ustr ''hello'') \<and>
   parse_output ([20214, 21517, 58] @ ustr ''Hi'' @ NL @ [26412, 25991, 58] @ NL @ ustr '' '' @ NL)
     = (ustr ''Hi'', [20214, 21517, 58] @ ustr ''Hi'' @ NL @ [26412, 25991, 58]) \<and>
   parse_output ([20214, 21517, 58] @ ustr ''Hi'' @ NL @ [26412, 25991, 58] @ NL @ ustr ''a'' @ NL @ ustr ''b'' @ NL)
     = (ustr ''Hi'', ustr ''a'' @ NL @ ustr ''b'')"
proof (intro conjI)
  show "parse_output (ustr ''just some text'')
     = (placeholder, ustr ''just some text'')"
    using parse_output_resolution_by_marker_lines
      [of "ustr ''just some text''"]
    by (simp add: eval_defs parse_defs)
  show "parse_output ([20214, 21517, 65306] @ NL @ [26412, 25991, 65306] @ NL @ ustr ''hello'')
     = (placeholder, [20214, 21517, 65306] @ NL @ [26412, 25991, 65306] @ NL @ ustr ''hello'')"
    using parse_output_resolution_by_marker_lines
      [of "[20214, 21517, 65306] @ NL @ [26412, 25991, 65306] @ NL @ ustr ''hello''"]
    by (simp add: eval_defs parse_defs)
  show "parse_output ([20214, 21517, 58] @ ustr ''Hi'' @ NL @ [26412, 25991, 58] @ NL @ ustr '' '' @ NL)
     = (ustr ''Hi'', [20214, 21517, 58] @ ustr ''Hi'' @ NL @ [26412, 25991, 58])"
    using parse_output_resolution_by_marker_lines
      [of "[20214, 21517, 58] @ ustr ''Hi'' @ NL @ [26412, 25991, 58] @ NL @ ustr '' '' @ NL"]
    by (simp add: eval_defs parse_defs)
  show "parse_output ([20214, 21517, 58] @ ustr ''Hi'' @ NL @ [26412, 25991, 58] @ NL @ ustr ''a'' @ NL @ ustr ''b'' @ NL)
     = (ustr ''Hi'', ustr ''a'' @ NL @ ustr ''b'')"
    using parse_output_resolution_by_marker_lines
      [of "[20214, 21517, 58] @ ustr ''Hi'' @ NL @ [26412, 25991, 58] @ NL @ ustr ''a'' @ NL @ ustr ''b'' @ NL"]
    by (simp add: eval_defs parse_defs)
qed

text \<open>
  Claim C5 as stated fails where a marker line is found and its candidate is empty. In
  the reply of the three lines "subject marker", "body marker", "hello" both marker
  lines are found, and the result is the placeholder and the whole reply, not the two
  candidates. In the reply "subject marker, Hi", "body marker", " " both marker lines are
  found, and the body returned is the whole trimmed reply, not the empty body candidate.
\<close>

theorem parse_output_found_but_empty_counterexample:
  "stripped_lines ([20214, 21517, 65306] @ NL @ [26412, 25991, 65306] @ NL @ ustr ''hello'')
     = [[20214, 21517, 65306], [26412, 25991, 65306], ustr ''hello''] \<and>
   startswith_any [20214, 21517, 65306] subject_prefixes \<and>
   startswith_any [26412, 25991, 65306] body_prefixes \<and>
   candidates ([20214, 21517, 65306] @ NL @ [26412, 25991, 65306] @ NL @ ustr ''hello'')
     = ([], ustr ''hello'') \<and>
   parse_output ([20214, 21517, 65306] @ NL @ [26412, 25991, 65306] @ NL @ ustr ''hello'')
     = (placeholder, [20214, 21517, 65306] @ NL @ [26412, 25991, 65306] @ NL @ ustr ''hello'') \<and>
   parse_output ([20214, 21517, 65306] @ NL @ [26412, 25991, 65306] @ NL @ ustr ''hello'')
     \<noteq> ([], ustr ''hello'') \<and>
   stripped_lines ([20214, 21517, 58] @ ustr ''Hi'' @ NL @ [26412, 25991, 58] @ NL @ ustr '' '' @ NL)
     = [[20214, 21517, 58] @ ustr ''Hi'', [26412, 25991, 58], []] \<and>
   startswith_any ([20214, 21517, 58] @ ustr ''Hi'') subject_prefixes \<and>
   startswith_any [26412, 25991, 58] body_prefixes \<and>
   candidates ([20214, 21517, 58] @ ustr ''Hi'' @ NL @ [26412, 25991, 58] @ NL @ ustr '' '' @ NL)
     = (ustr ''Hi'', []) \<and>
   parse_output ([20214, 21517, 58] @ ustr ''Hi'' @ NL @ [26412, 25991, 58] @ NL @ ustr '' '' @ NL)
     = (ustr ''Hi'', [20214, 21517, 58] @ ustr ''Hi'' @ NL @ [26412, 25991, 58]) \<and>
   parse_output ([20214, 21517, 58] @ ustr ''Hi'' @ NL @ [26412, 25991, 58] @ NL @ ustr '' '' @ NL)
     \<noteq> (ustr ''Hi'', [])"
  by (simp add: eval_defs parse_defs)

text \<open>
  Claim C6, as amended. The markers of the program are the Japanese words for subject
  and body, each followed by an ASCII or a full-width colon. The reply of the four lines
  "subject marker, Hello", "body marker", "Line one", "Line two" gives the subject
  \<^verbatim>\<open>"Hello"\<close> and the body \<^verbatim>\<open>"Line one\nLine two"\<close>, with either colon.
\<close>

theorem parse_output_japanese_markers:
  "parse_output ([20214, 21517, 58] @ ustr '' Hello'' @ NL @ [26412, 25991, 58] @ NL @
                 ustr ''Line one'' @ NL @ ustr ''Line two'')
     = (ustr ''Hello'', ustr ''Line one'' @ NL @ ustr ''Line two'') \<and>
   parse_output ([20214, 21517, 65306] @ ustr ''Hello'' @ NL @ [26412, 25991, 65306] @ NL @
                 ustr ''Line one'' @ NL @ ustr ''Line two'')
     = (ustr ''Hello'', ustr ''Line one'' @ NL @ ustr ''Line two'')"
  by (simp add: eval_defs parse_defs)

text \<open>
  Claim C6 as stated fails: \<^verbatim>\<open>"Subject: Hello"\<close> and \<^verbatim>\<open>"Body:"\<close> are no markers of the
  program, so the reply with these two lines gives the placeholder subject and the whole
  reply as the body.
\<close>

theorem parse_output_english_markers_counterexample:
  "parse_output (ustr ''Subject: Hello'' @ NL @ ustr ''Body:'' @ NL @
                 ustr ''Line one'' @ NL @ ustr ''Line two'')
     = (placeholder, ustr ''Subject: Hello'' @ NL @ ustr ''Body:'' @ NL @
                     ustr ''Line one'' @ NL @ ustr ''Line two'') \<and>
   parse_output (ustr ''Subject: Hello'' @ NL @ ustr ''Body:'' @ NL @
                 ustr ''Line one'' @ NL @ ustr ''Line two'')
     \<noteq> (ustr ''Hello'', ustr ''Line one'' @ NL @ ustr ''Line two'')"
  by (simp add: eval_defs parse_defs)

section \<open>Claims about the validator\<close>

text \<open>
  Claim C2, as amended. \<^verbatim>\<open>validate_inputs\<close> trims the text for the first test only; the two
  length tests read the raw length. It fails with the warning for an empty input when
  the trimmed text is empty; otherwise with the warning for a short input when the raw
  length is below 10; otherwise with the warning for a long input when the raw length is
  above 4000; otherwise, with a non-empty trimmed text and a raw length in [10, 4000], it
  succeeds. In particular it succeeds whenever the trimmed length is at least 10 and the
  raw length at most 4000.
\<close>

theorem validate_inputs_rules:
  "(strip x = [] \<longrightarrow> validate_inputs x = (False, [Warning msg_required_empty])) \<and>
   (strip x \<noteq> [] \<and> length x < 10 \<longrightarrow> validate_inputs x = (False, [Warning msg_too_short])) \<and>
   (strip x \<noteq> [] \<and> 4000 < length x \<longrightarrow> validate_inputs x = (False, [Warning msg_too_long])) \<and>
   (strip x \<noteq> [] \<and> 10 \<le> length x \<and> length x \<le> 4000 \<longrightarrow> validate_inputs x = (True, [])) \<and>
   (10 \<le> length (strip x) \<and> length x \<le> 4000 \<longrightarrow> validate_inputs x = (True, []))"
proof -
  have "10 \<le> length (strip x) \<Longrightarrow> strip x \<noteq> [] \<and> 10 \<le> length x"
    using length_strip_le [of x] by auto
  then show ?thesis
    by (auto simp: validate_inputs_def)
qed

text \<open>One input for each of the four outcomes.\<close>

theorem validate_inputs_rules_witness:
  "validate_inputs (ustr ''   '') = (False, [Warning msg_required_empty]) \<and>
   validate_inputs (ustr ''too short'') = (False, [Warning msg_too_short]) \<and>
   validate_inputs (replicate 4001 97) = (False, [Warning msg_too_long]) \<and>
   validate_inputs (ustr ''  ten chars or more  '') = (True, [])"
  using validate_inputs_rules [of "ustr ''   ''"]
    validate_inputs_rules [of "ustr ''too short''"]
    validate_inputs_rules [of "replicate 4001 97"]
    validate_inputs_rules [of "ustr ''  ten chars or more  ''"]
  by (simp add: strip_eq_Nil_iff ustr_def is_space_def)

text \<open>
  Claim C2 as stated fails: the letter \<^verbatim>\<open>a\<close> followed by nine spaces has trimmed length 1,
  for which the claim asks the failure for a short input, and raw length 10, so
  \<^verbatim>\<open>validate_inputs\<close> accepts it.
\<close>

theorem validate_inputs_padded_counterexample:
  "length (strip (ustr ''a         '')) = 1 \<and> validate_inputs (ustr ''a         '') = (True, [])"
  by (simp add: validate_inputs_def eval_defs)

section \<open>Claims about the two actions\<close>

lemma key_missing_simps:
  "key_missing (w\<lparr>shown := m\<rparr>) = key_missing w"
  "key_missing (w\<lparr>invoked := i\<rparr>) = key_missing w"
  by (simp_all add: key_missing_def)


text \<open>
  The log of the gateway is not idle: a rewrite that passes the two guards invokes the
  gateway once, with the rewrite prompt.
\<close>

lemma handle_rewrite_invokes:
  assumes "\<not> key_missing w" and "strip (get_default (session_state w) ''body'') \<noteq> []"
  shows "invoked (handle_rewrite gw instruction w) =
           invoked w @ [build_rewrite_prompt (strip (get_default (session_state w) ''subject''))
                          (strip (get_default (session_state w) ''body'')) instruction]"
  using assms
  by (simp add: handle_rewrite_def call_llm_def error_def Let_def split: option.splits prod.splits)

text \<open>
  Claim C8. When the environment variable of the credential is absent, both
  \<^verbatim>\<open>handle_generate\<close> and \<^verbatim>\<open>handle_rewrite\<close> show the warning that the key is not set and
  return; the gateway is not invoked, whatever the gateway is.
\<close>

theorem missing_credential_no_gateway_call:
  assumes "api_key w = None"
  shows "handle_generate gw w = Inr (warning msg_key_missing w) \<and>
         handle_rewrite gw instruction w = warning msg_key_missing w \<and>
         shown (warning msg_key_missing w) = shown w @ [Warning msg_key_missing] \<and>
         invoked (warning msg_key_missing w) = invoked w"
  using assms
  by (simp add: handle_generate_def handle_rewrite_def key_missing_def warning_def)

text \<open>A world without the credential, with a gateway that would answer.\<close>

theorem missing_credential_witness:
  "api_key \<lparr>api_key = None, session_state = seed defaults Map.empty, shown = [], invoked = []\<rparr>
     = None \<and>
   handle_generate (\<lambda>p. Some p)
     \<lparr>api_key = None, session_state = seed defaults Map.empty, shown = [], invoked = []\<rparr>
     = Inr \<lparr>api_key = None, session_state = seed defaults Map.empty,
            shown = [Warning msg_key_missing], invoked = []\<rparr> \<and>
   handle_rewrite (\<lambda>p. Some p) (ustr ''shorten'')
     \<lparr>api_key = None, session_state = seed defaults Map.empty, shown = [], invoked = []\<rparr>
     = \<lparr>api_key = None, session_state = seed defaults Map.empty,
         shown = [Warning msg_key_missing], invoked = []\<rparr>"
  using missing_credential_no_gateway_call
    [of "\<lparr>api_key = None, session_state = seed defaults Map.empty, shown = [], invoked = []\<rparr>"
        "\<lambda>p. Some p" "ustr ''shorten''"]
  by (simp add: warning_def)



text \<open>The definitions that evaluate the actions on a concrete world.\<close>

lemmas world_defs = key_missing_def warning_def error_def call_llm_def get_default_def
  handle_generate_def handle_rewrite_def generate_with_llm_def validate_inputs_def
  defaults_def Let_def


section \<open>The subject after a rewrite\<close>

text \<open>A non-empty subject candidate is the trimmed text after the marker of a line.\<close>

lemma subject_source:
  assumes "fst (candidates text) \<noteq> []"
  shows "\<exists>l\<in>set (stripped_lines text). \<exists>p\<in>set subject_prefixes.
           startswith l p \<and> fst (candidates text) = strip (replace_first p [] l)"
proof -
  let ?subs = "filter (\<lambda>l. startswith_any l subject_prefixes)
                 (takeWhile (\<lambda>l. \<not> startswith_any l body_prefixes) (stripped_lines text))"
  have ne: "?subs \<noteq> []"
    using assms by (auto simp: fst_candidates Let_def)
  then have "last ?subs \<in> set ?subs" by (rule last_in_set)
  then have mem: "last ?subs \<in> set (stripped_lines text)"
    and sub: "startswith_any (last ?subs) subject_prefixes"
    by (auto dest: set_takeWhileD)
  from sub obtain p where p: "p \<in> set subject_prefixes" "startswith (last ?subs) p"
    by (auto simp: startswith_any_def list_ex_iff)
  then have "replace_first p [] (last ?subs) = drop 3 (last ?subs)"
    by (auto simp: subject_prefixes_def replace_first_prefix numeral_3_eq_3)
  moreover have "fst (candidates text) = strip (drop 3 (last ?subs))"
    using ne by (simp add: fst_candidates Let_def)
  ultimately have "startswith (last ?subs) p \<and>
      fst (candidates text) = strip (replace_first p [] (last ?subs))"
    using p(2) by simp
  with mem p(1) show ?thesis by blast
qed

text \<open>
  Claim C10. The subject returned by \<^verbatim>\<open>parse_output\<close> is never empty: it is the placeholder,
  or the non-empty trimmed text that follows a subject marker on a line of the reply.
  Hence a rewrite that succeeds (credential present, body non-empty once trimmed, the
  gateway answers) always stores the parsed subject and the parsed body: the test
  \<^verbatim>\<open>if new_subject\<close> of \<^verbatim>\<open>handle_rewrite\<close> never takes its other branch.
\<close>

theorem parse_output_subject_never_empty:
  "fst (parse_output raw) \<noteq> [] \<and>
   (fst (parse_output raw) = placeholder \<or>
    (\<exists>l\<in>set (stripped_lines raw). \<exists>p\<in>set subject_prefixes.
       startswith l p \<and> fst (parse_output raw) = strip (replace_first p [] l))) \<and>
   (\<not> key_missing w \<and> strip (get_default (session_state w) ''body'') \<noteq> [] \<and>
    gw (build_rewrite_prompt (strip (get_default (session_state w) ''subject''))
          (strip (get_default (session_state w) ''body'')) instruction) = Some reply \<longrightarrow>
    session_state (handle_rewrite gw instruction w) =
      (session_state w)(''subject'' \<mapsto> fst (parse_output reply),
                        ''body'' \<mapsto> snd (parse_output reply)))"
proof (intro conjI impI)
  show ne: "fst (parse_output raw) \<noteq> []" for raw
    by (simp add: fst_parse_output placeholder_def)
  show "fst (parse_output raw) = placeholder \<or>
    (\<exists>l\<in>set (stripped_lines raw). \<exists>p\<in>set subject_prefixes.
       startswith l p \<and> fst (parse_output raw) = strip (replace_first p [] l))"
    using subject_source [of raw] by (auto simp: fst_parse_output)
  assume a: "\<not> key_missing w \<and> strip (get_default (session_state w) ''body'') \<noteq> [] \<and>
    gw (build_rewrite_prompt (strip (get_default (session_state w) ''subject''))
          (strip (get_default (session_state w) ''body'')) instruction) = Some reply"
  obtain s b where sb: "parse_output reply = (s, b)" by (cases "parse_output reply")
  then have "s \<noteq> []" using ne [of reply] by simp
  then show "session_state (handle_rewrite gw instruction w) =
      (session_state w)(''subject'' \<mapsto> fst (parse_output reply),
                        ''body'' \<mapsto> snd (parse_output reply))"
    using a sb by (simp add: handle_rewrite_def call_llm_def Let_def)
qed

text \<open>
  A reply with a subject line, a reply whose subject line is blank, and a rewrite that
  succeeds.
\<close>

theorem parse_output_subject_never_empty_witness:
  "fst (parse_output ([20214, 21517, 65306] @ ustr ''Agenda'')) = ustr ''Agenda'' \<and>
   fst (parse_output ([20214, 21517, 65306] @ ustr ''  '')) = placeholder \<and>
   session_state (handle_rewrite (\<lambda>p. Some ([20214, 21517, 65306] @ ustr ''Agenda''))
      (ustr ''shorten'')
      \<lparr>api_key = Some (ustr ''sk-test''),
        session_state = [''subject'' \<mapsto> ustr ''Meeting'', ''body'' \<mapsto> ustr ''...''],
        shown = [], invoked = []\<rparr>)
     = [''subject'' \<mapsto> ustr ''Agenda'',
        ''body'' \<mapsto> [20214, 21517, 65306] @ ustr ''Agenda'']"
  using parse_output_subject_never_empty
      [where raw = "[20214, 21517, 65306] @ ustr ''Agenda''"
         and gw = "\<lambda>p. Some ([20214, 21517, 65306] @ ustr ''Agenda'')"
         and reply = "[20214, 21517, 65306] @ ustr ''Agenda''"
         and instruction = "ustr ''shorten''"
         and w = "\<lparr>api_key = Some (ustr ''sk-test''),
        session_state = [''subject'' \<mapsto> ustr ''Meeting'', ''body'' \<mapsto> ustr ''...''],
        shown = [], invoked = []\<rparr>"]
  by (simp add: world_defs eval_defs parse_defs)

text \<open>
  Claim C1 asks that a rewrite keeps the stored subject when the reply carries no subject
  text, which is what the test \<^verbatim>\<open>if new_subject\<close> of \<^verbatim>\<open>handle_rewrite\<close> is there for. The
  program does not do so: with the stored subject \<^verbatim>\<open>"Meeting"\<close>, the body \<^verbatim>\<open>"..."\<close>, the
  instruction \<^verbatim>\<open>"shorten"\<close> and the reply \<^verbatim>\<open>"just some text"\<close>, the subject candidate of the
  parser is empty, and the rewrite stores the placeholder as the subject (the body is
  overwritten with the parsed body, as the claim says).
\<close>

theorem handle_rewrite_placeholder_replaces_subject:
  "fst (candidates (ustr ''just some text'')) = [] \<and>
   session_state (handle_rewrite (\<lambda>p. Some (ustr ''just some text'')) (ustr ''shorten'')
      \<lparr>api_key = Some (ustr ''sk-test''),
        session_state = [''subject'' \<mapsto> ustr ''Meeting'', ''body'' \<mapsto> ustr ''...''],
        shown = [], invoked = []\<rparr>)
     = [''subject'' \<mapsto> placeholder, ''body'' \<mapsto> ustr ''just some text''] \<and>
   placeholder \<noteq> ustr ''Meeting''"
  by (simp add: world_defs eval_defs parse_defs)

end
